theory Spec2Isabelle
  imports Main
begin

section \<open>Settings migration of the LoadSingleImage module\<close>

text \<open>
  The development embeds \<open>LoadSingleImage.upgrade_settings\<close> and
  \<open>LoadSingleImage.prepare_settings\<close> of
  \<open>cellprofiler/modules/loadsingleimage.py\<close> (Python 2). A settings record is a Python
  list; its elements are strings on entry, and the 2->3 block adds the pairs that
  \<open>zip\<close> builds, so an element is a string or a pair of a string and an element.
\<close>

subsection \<open>Values, errors and the settings module\<close>

datatype pyval = Str string | Tup string pyval

fun is_str :: "pyval \<Rightarrow> bool" where
  "is_str (Str s) = True"
| "is_str (Tup a b) = False"

datatype error = IndexError | TypeError | AttributeError | MalformedDescriptor

text \<open>
  \<open>cellprofiler.settings\<close> (\<open>cps\<close>) and \<open>loadimages\<close> are not among the sources: the
  constants and the three static methods of \<open>cps.DirectoryPath\<close> that
  \<open>upgrade_settings\<close> uses are parameters of the model. \<open>split_string\<close> may raise,
  \<open>static_join_string\<close> and \<open>upgrade_setting\<close> return a string.
\<close>

record cps =
  DEFAULT_INPUT_FOLDER_NAME :: string
  DEFAULT_OUTPUT_FOLDER_NAME :: string
  DEFAULT_INPUT_SUBFOLDER_NAME :: string
  DEFAULT_OUTPUT_SUBFOLDER_NAME :: string
  ABSOLUTE_FOLDER_NAME :: string
  URL_FOLDER_NAME :: string
  DO_NOT_USE :: string
  YES :: string
  IO_IMAGES :: string
  static_join_string :: "string \<Rightarrow> string \<Rightarrow> string"
  split_string :: "string \<Rightarrow> error + string \<times> string"
  upgrade_setting :: "string \<Rightarrow> string"

definition DIR_CUSTOM_FOLDER :: string where
  "DIR_CUSTOM_FOLDER = ''Custom folder''"

definition DIR_CUSTOM_WITH_METADATA :: string where
  "DIR_CUSTOM_WITH_METADATA = ''Custom with metadata''"

definition S_FILE_SETTINGS_COUNT_V4 :: nat where
  "S_FILE_SETTINGS_COUNT_V4 = 3"

definition S_FILE_SETTINGS_COUNT_V5 :: nat where
  "S_FILE_SETTINGS_COUNT_V5 = 5"

subsection \<open>Python list and string operations\<close>

text \<open>\<open>xs[i]\<close> for a non-negative index: IndexError out of range.\<close>

definition getitem :: "'a list \<Rightarrow> nat \<Rightarrow> error + 'a" where
  "getitem xs i = (if i < length xs then Inr (xs ! i) else Inl IndexError)"

text \<open>\<open>xs[i:j]\<close> and \<open>del xs[i:j]\<close> for non-negative bounds: slices clamp, they never raise.\<close>

definition slice :: "'a list \<Rightarrow> nat \<Rightarrow> nat \<Rightarrow> 'a list" where
  "slice xs i j = take (j - i) (drop i xs)"

definition delslice :: "'a list \<Rightarrow> nat \<Rightarrow> nat \<Rightarrow> 'a list" where
  "delslice xs i j = take i xs @ drop (max i j) xs"

text \<open>\<open>xs[0::2]\<close>; \<open>xs[k::2]\<close> is \<open>step2 (drop k xs)\<close>.\<close>

fun step2 :: "'a list \<Rightarrow> 'a list" where
  "step2 [] = []"
| "step2 [x] = [x]"
| "step2 (x # y # zs) = x # step2 zs"

definition startswith :: "string \<Rightarrow> string \<Rightarrow> bool" where
  "startswith s p = (take (length p) s = p)"

text \<open>
  A string method called on a pair raises AttributeError; a pair given where a string
  is concatenated or joined raises TypeError.
\<close>

fun str_method :: "pyval \<Rightarrow> error + string" where
  "str_method (Str s) = Inr s"
| "str_method (Tup a b) = Inl AttributeError"

fun str_operand :: "pyval \<Rightarrow> error + string" where
  "str_operand (Str s) = Inr s"
| "str_operand (Tup a b) = Inl TypeError"

text \<open>\<open>v[0]\<close> on an element: the first character of a string, the first component of a pair.\<close>

fun index0 :: "pyval \<Rightarrow> error + pyval" where
  "index0 (Str []) = Inl IndexError"
| "index0 (Str (c # s)) = Inr (Str [c])"
| "index0 (Tup a b) = Inr (Str a)"

text \<open>\<open>[custom_dir + '/' + filename for filename in filenames]\<close>.\<close>

fun absorb_dir :: "string \<Rightarrow> pyval list \<Rightarrow> error + string list" where
  "absorb_dir custom_dir [] = Inr []"
| "absorb_dir custom_dir (filename # filenames) =
     (case str_operand filename of
        Inl e \<Rightarrow> Inl e
      | Inr f \<Rightarrow>
          (case absorb_dir custom_dir filenames of
             Inl e \<Rightarrow> Inl e
           | Inr fs \<Rightarrow> Inr ((custom_dir @ ''/'' @ f) # fs)))"

subsection \<open>The blocks of \<open>upgrade_settings\<close>\<close>

text \<open>
  Lines 397-405: the copy of the record gets the directory choice written into slot 0,
  chosen by the second field.
\<close>

definition matlab_dir_choice :: "cps \<Rightarrow> pyval \<Rightarrow> string" where
  "matlab_dir_choice c v =
     (if v = Str ''.'' then DEFAULT_INPUT_FOLDER_NAME c
      else if v = Str ''&'' then DEFAULT_OUTPUT_FOLDER_NAME c
      else DIR_CUSTOM_FOLDER)"

definition set_dir_choice :: "cps \<Rightarrow> pyval list \<Rightarrow> error + pyval list" where
  "set_dir_choice c setting_values =
     (case getitem setting_values 1 of
        Inl e \<Rightarrow> Inl e
      | Inr v \<Rightarrow> Inr (setting_values[0 := Str (matlab_dir_choice c v)]))"

text \<open>
  Lines 409-411: \<open>for i in [8, 6, 4]: if new_setting_values[i+1] == cps.DO_NOT_USE:
  del new_setting_values[i:i+2]\<close>.
\<close>

fun remove_do_not_use :: "cps \<Rightarrow> nat list \<Rightarrow> pyval list \<Rightarrow> error + pyval list" where
  "remove_do_not_use c [] new_setting_values = Inr new_setting_values"
| "remove_do_not_use c (i # is) new_setting_values =
     (case getitem new_setting_values (i + 1) of
        Inl e \<Rightarrow> Inl e
      | Inr v \<Rightarrow>
          remove_do_not_use c is
            (if v = Str (DO_NOT_USE c) then delslice new_setting_values i (i + 2)
             else new_setting_values))"

definition matlab_v4_to_v1 :: "cps \<Rightarrow> pyval list \<Rightarrow> error + pyval list" where
  "matlab_v4_to_v1 c setting_values =
     (case set_dir_choice c setting_values of
        Inl e \<Rightarrow> Inl e
      | Inr new_setting_values \<Rightarrow> remove_do_not_use c [8, 6, 4] new_setting_values)"

text \<open>Lines 419-433: the directory choice and the custom directory of a revision-1 record.\<close>

definition v1_dir_parts :: "cps \<Rightarrow> pyval list \<Rightarrow> error + string \<times> pyval" where
  "v1_dir_parts c setting_values =
     (case getitem setting_values 0 of
        Inl e \<Rightarrow> Inl e
      | Inr v0 \<Rightarrow>
     (case str_method v0 of
        Inl e \<Rightarrow> Inl e
      | Inr s0 \<Rightarrow>
          if startswith s0 ''Default image'' then
            (case getitem setting_values 1 of
               Inl e \<Rightarrow> Inl e
             | Inr custom_directory \<Rightarrow> Inr (DEFAULT_INPUT_FOLDER_NAME c, custom_directory))
          else if s0 = DIR_CUSTOM_FOLDER \<or> s0 = DIR_CUSTOM_WITH_METADATA then
            (case getitem setting_values 1 of
               Inl e \<Rightarrow> Inl e
             | Inr custom_directory \<Rightarrow>
            (case index0 custom_directory of
               Inl e \<Rightarrow> Inl e
             | Inr c0 \<Rightarrow>
                 if c0 = Str ''.'' then Inr (DEFAULT_INPUT_SUBFOLDER_NAME c, custom_directory)
                 else if c0 = Str ''&'' then
                   (case custom_directory of
                      Str s \<Rightarrow> Inr (DEFAULT_OUTPUT_SUBFOLDER_NAME c, Str (''.'' @ tl s))
                    | Tup a b \<Rightarrow> Inl TypeError)
                 else Inr (ABSOLUTE_FOLDER_NAME c, custom_directory)))
          else
            (case getitem setting_values 1 of
               Inl e \<Rightarrow> Inl e
             | Inr custom_directory \<Rightarrow> Inr (s0, custom_directory))))"

text \<open>Lines 434-436: \<open>[directory] + setting_values[2:]\<close>.\<close>

definition v1_to_v2 :: "cps \<Rightarrow> pyval list \<Rightarrow> error + pyval list" where
  "v1_to_v2 c setting_values =
     (case v1_dir_parts c setting_values of
        Inl e \<Rightarrow> Inl e
      | Inr (dir_choice, custom_directory) \<Rightarrow>
     (case str_operand custom_directory of
        Inl e \<Rightarrow> Inl e
      | Inr p \<Rightarrow>
          Inr (Str (static_join_string c dir_choice p) # drop 2 setting_values)))"

text \<open>
  Lines 446-453. The result is \<open>None\<close> when the variable keeps its list (the folder is
  no URL) and the new list otherwise. \<open>zip\<close> builds pairs and stops at the shorter list.
\<close>

definition v2_to_v3 :: "cps \<Rightarrow> pyval list \<Rightarrow> error + pyval list option" where
  "v2_to_v3 c setting_values =
     (case getitem setting_values 0 of
        Inl e \<Rightarrow> Inl e
      | Inr v0 \<Rightarrow>
     (case str_method v0 of
        Inl e \<Rightarrow> Inl e
      | Inr dir \<Rightarrow>
     (case split_string c dir of
        Inl e \<Rightarrow> Inl e
      | Inr (dir_choice, custom_dir) \<Rightarrow>
          if dir_choice = URL_FOLDER_NAME c then
            (case absorb_dir custom_dir (step2 (drop 1 setting_values)) of
               Inl e \<Rightarrow> Inl e
             | Inr filenames \<Rightarrow>
                 Inr (Some (Str (static_join_string c dir_choice '''')
                        # map (\<lambda>(f, n). Tup f n)
                            (zip filenames (step2 (drop 2 setting_values))))))
          else Inr None)))"

text \<open>
  Lines 458-460: \<open>for i in range(1, len(setting_values), 2): new_setting_values +=
  setting_values[i:(i+2)] + [cps.YES]\<close>.
\<close>

function v3_loop :: "cps \<Rightarrow> pyval list \<Rightarrow> nat \<Rightarrow> pyval list \<Rightarrow> pyval list" where
  "v3_loop c setting_values i new_setting_values =
     (if i < length setting_values
      then v3_loop c setting_values (i + 2)
             (new_setting_values @ slice setting_values i (i + 2) @ [Str (YES c)])
      else new_setting_values)"
  by pat_completeness auto
termination
  by (relation "measure (\<lambda>(c, setting_values, i, new). length setting_values - i)") auto

declare v3_loop.simps [simp del]

definition v3_to_v4 :: "cps \<Rightarrow> pyval list \<Rightarrow> pyval list" where
  "v3_to_v4 c setting_values = v3_loop c setting_values 1 (slice setting_values 0 1)"

text \<open>
  Lines 466-471: \<open>for i in range(1, len(setting_values), S_FILE_SETTINGS_COUNT_V4):
  new_setting_values += [setting_values[i]] + [IO_IMAGES] +
  setting_values[(i+1):(i+S_FILE_SETTINGS_COUNT_V4)] + ["Nuclei"]\<close>.
\<close>

function v4_loop :: "cps \<Rightarrow> pyval list \<Rightarrow> nat \<Rightarrow> pyval list \<Rightarrow> pyval list" where
  "v4_loop c setting_values i new_setting_values =
     (if i < length setting_values
      then v4_loop c setting_values (i + S_FILE_SETTINGS_COUNT_V4)
             (new_setting_values @ [setting_values ! i] @ [Str (IO_IMAGES c)]
                @ slice setting_values (i + 1) (i + S_FILE_SETTINGS_COUNT_V4)
                @ [Str ''Nuclei''])
      else new_setting_values)"
  by pat_completeness auto
termination
  by (relation "measure (\<lambda>(c, setting_values, i, new). length setting_values - i)")
     (auto simp: S_FILE_SETTINGS_COUNT_V4_def)

declare v4_loop.simps [simp del]

definition v4_to_v5 :: "cps \<Rightarrow> pyval list \<Rightarrow> pyval list" where
  "v4_to_v5 c setting_values = v4_loop c setting_values 1 (slice setting_values 0 1)"

subsection \<open>The call frame and the store\<close>

text \<open>
  The store is the list of the list objects alive during the call, an address is a
  position in it. The caller's list is at address 0; the local variable
  \<open>setting_values\<close> holds an address, at first that of the caller's list.
\<close>

record frame =
  heap :: "pyval list list"
  setting_values :: nat
  variable_revision_number :: int
  from_matlab :: bool

definition the_list :: "frame \<Rightarrow> pyval list" where
  "the_list f = heap f ! setting_values f"

text \<open>Binding \<open>setting_values\<close> to a newly built list.\<close>

definition rebind :: "pyval list \<Rightarrow> frame \<Rightarrow> frame" where
  "rebind new f = f\<lparr>heap := heap f @ [new], setting_values := length (heap f)\<rparr>"

definition block_matlab :: "cps \<Rightarrow> frame \<Rightarrow> error + frame" where
  "block_matlab c f =
     (if from_matlab f \<and> variable_revision_number f = 4 then
        (case matlab_v4_to_v1 c (the_list f) of
           Inl e \<Rightarrow> Inl e
         | Inr new \<Rightarrow>
             Inr ((rebind new f)\<lparr>from_matlab := False, variable_revision_number := 1\<rparr>))
      else Inr f)"

definition block_v1 :: "cps \<Rightarrow> frame \<Rightarrow> error + frame" where
  "block_v1 c f =
     (if variable_revision_number f = 1 \<and> \<not> from_matlab f then
        (case v1_to_v2 c (the_list f) of
           Inl e \<Rightarrow> Inl e
         | Inr new \<Rightarrow> Inr ((rebind new f)\<lparr>variable_revision_number := 2\<rparr>))
      else Inr f)"

text \<open>
  Lines 440-442: \<open>setting_values[SLOT_DIR] = cps.DirectoryPath.upgrade_setting(
  setting_values[SLOT_DIR])\<close>, an assignment into the list the variable is bound to.
  The methods of \<open>DirectoryPath\<close> take a string, which they split and join; a pair given
  to \<open>upgrade_setting\<close> or \<open>split_string\<close> is modelled as the AttributeError of a string
  method. No call on a record of strings reaches that case.
\<close>

definition standardize_dir :: "cps \<Rightarrow> frame \<Rightarrow> error + frame" where
  "standardize_dir c f =
     (case getitem (the_list f) 0 of
        Inl e \<Rightarrow> Inl e
      | Inr v0 \<Rightarrow>
     (case str_method v0 of
        Inl e \<Rightarrow> Inl e
      | Inr s \<Rightarrow>
          Inr (f\<lparr>heap := (heap f)[setting_values f :=
                   (the_list f)[0 := Str (upgrade_setting c s)]]\<rparr>)))"

definition block_v2 :: "cps \<Rightarrow> frame \<Rightarrow> error + frame" where
  "block_v2 c f =
     (if variable_revision_number f = 2 \<and> \<not> from_matlab f then
        (case v2_to_v3 c (the_list f) of
           Inl e \<Rightarrow> Inl e
         | Inr None \<Rightarrow> Inr (f\<lparr>variable_revision_number := 3\<rparr>)
         | Inr (Some new) \<Rightarrow> Inr ((rebind new f)\<lparr>variable_revision_number := 3\<rparr>))
      else Inr f)"

definition block_v3 :: "cps \<Rightarrow> frame \<Rightarrow> frame" where
  "block_v3 c f =
     (if variable_revision_number f = 3 \<and> \<not> from_matlab f then
        (rebind (v3_to_v4 c (the_list f)) f)\<lparr>variable_revision_number := 4\<rparr>
      else f)"

definition block_v4 :: "cps \<Rightarrow> frame \<Rightarrow> frame" where
  "block_v4 c f =
     (if variable_revision_number f = 4 \<and> \<not> from_matlab f then
        (rebind (v4_to_v5 c (the_list f)) f)\<lparr>variable_revision_number := 5\<rparr>
      else f)"

definition upgrade_settings_frame :: "cps \<Rightarrow> frame \<Rightarrow> error + frame" where
  "upgrade_settings_frame c f =
     (case block_matlab c f of
        Inl e \<Rightarrow> Inl e
      | Inr f1 \<Rightarrow>
     (case block_v1 c f1 of
        Inl e \<Rightarrow> Inl e
      | Inr f2 \<Rightarrow>
     (case standardize_dir c f2 of
        Inl e \<Rightarrow> Inl e
      | Inr f3 \<Rightarrow>
     (case block_v2 c f3 of
        Inl e \<Rightarrow> Inl e
      | Inr f4 \<Rightarrow> Inr (block_v4 c (block_v3 c f4))))))"

definition enter :: "pyval list \<Rightarrow> int \<Rightarrow> bool \<Rightarrow> frame" where
  "enter xs vrn fm =
     \<lparr>heap = [xs], setting_values = 0, variable_revision_number = vrn, from_matlab = fm\<rparr>"

text \<open>
  What the call returns: \<open>(setting_values, variable_revision_number, from_matlab)\<close>.
\<close>

definition upgrade_settings ::
  "cps \<Rightarrow> pyval list \<Rightarrow> int \<Rightarrow> bool \<Rightarrow> error + pyval list \<times> int \<times> bool" where
  "upgrade_settings c xs vrn fm =
     (case upgrade_settings_frame c (enter xs vrn fm) of
        Inl e \<Rightarrow> Inl e
      | Inr f \<Rightarrow> Inr (the_list f, variable_revision_number f, from_matlab f))"

text \<open>The record that the call returns, the first component of the result.\<close>

definition migrate :: "cps \<Rightarrow> pyval list \<Rightarrow> int \<Rightarrow> bool \<Rightarrow> error + pyval list" where
  "migrate c xs vrn fm =
     (case upgrade_settings c xs vrn fm of
        Inl e \<Rightarrow> Inl e
      | Inr (ys, vrn', fm') \<Rightarrow> Inr ys)"

text \<open>The contents of the caller's list after a call that returns.\<close>

definition callers_list_after ::
  "cps \<Rightarrow> pyval list \<Rightarrow> int \<Rightarrow> bool \<Rightarrow> error + pyval list" where
  "callers_list_after c xs vrn fm =
     (case upgrade_settings_frame c (enter xs vrn fm) of
        Inl e \<Rightarrow> Inl e
      | Inr f \<Rightarrow> Inr (heap f ! 0))"

text \<open>
  \<open>prepare_settings\<close>, line 221: \<open>count = (len(setting_values)-1) / S_FILE_SETTINGS_COUNT_V5\<close>,
  the floor division of Python 2 integers.
\<close>

definition prepare_settings_count :: "pyval list \<Rightarrow> int" where
  "prepare_settings_count xs = (int (length xs) - 1) div int S_FILE_SETTINGS_COUNT_V5"

subsection \<open>Record layouts\<close>


definition entries_v4 :: "(string \<times> string \<times> string) list \<Rightarrow> pyval list" where
  "entries_v4 es = concat (map (\<lambda>(f, n, r). [Str f, Str n, Str r]) es)"

definition entries_v5 ::
  "(string \<times> string \<times> string \<times> string \<times> string) list \<Rightarrow> pyval list" where
  "entries_v5 es = concat (map (\<lambda>(f, io, n, r, obj). [Str f, Str io, Str n, Str r, Str obj]) es)"




definition add_object_option ::
  "cps \<Rightarrow> string \<times> string \<times> string
     \<Rightarrow> string \<times> string \<times> string \<times> string \<times> string" where
  "add_object_option c = (\<lambda>(f, n, r). (f, IO_IMAGES c, n, r, ''Nuclei''))"

subsection \<open>An instance of the settings module\<close>

text \<open>
  Modelled from the spec: \<open>cellprofiler.settings\<close> and \<open>loadimages\<close> are missing from the
  sources. The instance below follows the spec's Location Descriptor Codec: a descriptor
  is encoded as the tag, a delimiter and the custom path; decoding fails with
  MalformedDescriptor when the delimiter is missing or the tag is not recognised;
  \<open>upgrade_setting\<close> maps the deprecated "default image folder" spelling of a tag to the
  default-input tag and leaves the custom path alone. The literals of the tags and
  defaults are fixed here for evaluation only: every general theorem below holds for
  all values of the parameters.
\<close>

definition spec_join :: "string \<Rightarrow> string \<Rightarrow> string" where
  "spec_join dir_choice custom_path = dir_choice @ ''|'' @ custom_path"

definition spec_tags :: "string list" where
  "spec_tags = [''Default Input Folder'', ''Default Output Folder'', ''Elsewhere...'',
     ''Default Input Folder sub-folder'', ''Default Output Folder sub-folder'', ''URL'']"

definition spec_split :: "string \<Rightarrow> error + string \<times> string" where
  "spec_split s =
     (case dropWhile (\<lambda>ch. ch \<noteq> CHR ''|'') s of
        [] \<Rightarrow> Inl MalformedDescriptor
      | bar # custom_path \<Rightarrow>
          if takeWhile (\<lambda>ch. ch \<noteq> CHR ''|'') s \<in> set spec_tags
          then Inr (takeWhile (\<lambda>ch. ch \<noteq> CHR ''|'') s, custom_path)
          else Inl MalformedDescriptor)"

definition spec_upgrade :: "string \<Rightarrow> string" where
  "spec_upgrade s =
     (case dropWhile (\<lambda>ch. ch \<noteq> CHR ''|'') s of
        [] \<Rightarrow> s
      | bar # custom_path \<Rightarrow>
          if takeWhile (\<lambda>ch. ch \<noteq> CHR ''|'') s = ''Default Image Folder''
          then spec_join ''Default Input Folder'' custom_path
          else s)"

definition spec_cps :: cps where
  "spec_cps =
     \<lparr>DEFAULT_INPUT_FOLDER_NAME = ''Default Input Folder'',
      DEFAULT_OUTPUT_FOLDER_NAME = ''Default Output Folder'',
      DEFAULT_INPUT_SUBFOLDER_NAME = ''Default Input Folder sub-folder'',
      DEFAULT_OUTPUT_SUBFOLDER_NAME = ''Default Output Folder sub-folder'',
      ABSOLUTE_FOLDER_NAME = ''Elsewhere...'',
      URL_FOLDER_NAME = ''URL'',
      DO_NOT_USE = ''Do not use'',
      YES = ''Yes'',
      IO_IMAGES = ''Images'',
      static_join_string = spec_join,
      split_string = spec_split,
      upgrade_setting = spec_upgrade\<rparr>"

section \<open>Properties\<close>

subsection \<open>Unfolding the call and running the loops\<close>

lemmas frame_defs = upgrade_settings_def callers_list_after_def upgrade_settings_frame_def enter_def
  block_matlab_def block_v1_def block_v2_def block_v3_def block_v4_def standardize_dir_def
  the_list_def rebind_def

lemma v3_loop_acc: "v3_loop c sv i acc = acc @ v3_loop c sv i []"
proof (induction "length sv - i" arbitrary: i acc rule: less_induct)
  case less
  show ?case
  proof (cases "i < length sv")
    case True
    let ?step = "slice sv i (i + 2) @ [Str (YES c)]"
    have smaller: "length sv - (i + 2) < length sv - i" using True by arith
    have "v3_loop c sv i acc = v3_loop c sv (i + 2) (acc @ ?step)"
      using True by (subst v3_loop.simps) simp
    also have "\<dots> = (acc @ ?step) @ v3_loop c sv (i + 2) []"
      by (rule less [OF smaller])
    finally have a: "v3_loop c sv i acc = acc @ ?step @ v3_loop c sv (i + 2) []" by simp
    have "v3_loop c sv i [] = v3_loop c sv (i + 2) ?step"
      using True by (subst v3_loop.simps) simp
    also have "\<dots> = ?step @ v3_loop c sv (i + 2) []"
      by (rule less [OF smaller])
    finally show ?thesis using a by simp
  next
    case False
    then show ?thesis by (subst v3_loop.simps, subst (2) v3_loop.simps) simp
  qed
qed

lemma v4_loop_acc: "v4_loop c sv i acc = acc @ v4_loop c sv i []"
proof (induction "length sv - i" arbitrary: i acc rule: less_induct)
  case less
  let ?step = "[sv ! i] @ [Str (IO_IMAGES c)]
                @ slice sv (i + 1) (i + S_FILE_SETTINGS_COUNT_V4) @ [Str ''Nuclei'']"
  show ?case
  proof (cases "i < length sv")
    case True
    have smaller: "length sv - (i + S_FILE_SETTINGS_COUNT_V4) < length sv - i"
      using True by (simp add: S_FILE_SETTINGS_COUNT_V4_def)
    have "v4_loop c sv i acc = v4_loop c sv (i + S_FILE_SETTINGS_COUNT_V4) (acc @ ?step)"
      using True by (subst v4_loop.simps) simp
    also have "\<dots> = (acc @ ?step) @ v4_loop c sv (i + S_FILE_SETTINGS_COUNT_V4) []"
      by (rule less [OF smaller])
    finally have a: "v4_loop c sv i acc
        = acc @ ?step @ v4_loop c sv (i + S_FILE_SETTINGS_COUNT_V4) []" by simp
    have "v4_loop c sv i [] = v4_loop c sv (i + S_FILE_SETTINGS_COUNT_V4) ?step"
      using True by (subst v4_loop.simps) simp
    also have "\<dots> = ?step @ v4_loop c sv (i + S_FILE_SETTINGS_COUNT_V4) []"
      by (rule less [OF smaller])
    finally show ?thesis using a by simp
  next
    case False
    then show ?thesis by (subst v4_loop.simps, subst (2) v4_loop.simps) simp
  qed
qed

text \<open>One round of each loop, and its end.\<close>

lemma v3_loop_step:
  "i < length sv \<Longrightarrow>
   v3_loop c sv i [] = slice sv i (i + 2) @ [Str (YES c)] @ v3_loop c sv (i + 2) []"
  by (subst v3_loop.simps, subst v3_loop_acc) simp

lemma v3_loop_end: "length sv \<le> i \<Longrightarrow> v3_loop c sv i [] = []"
  by (subst v3_loop.simps) simp

lemma v4_loop_step:
  "i < length sv \<Longrightarrow>
   v4_loop c sv i [] = sv ! i # Str (IO_IMAGES c) # slice sv (i + 1) (i + 3)
                          @ [Str ''Nuclei''] @ v4_loop c sv (i + 3) []"
  by (subst v4_loop.simps, subst v4_loop_acc) (simp add: S_FILE_SETTINGS_COUNT_V4_def)

lemma v4_loop_end: "length sv \<le> i \<Longrightarrow> v4_loop c sv i [] = []"
  by (subst v4_loop.simps) simp

lemma v3_to_v4_Cons: "v3_to_v4 c (d # tail) = d # v3_loop c (d # tail) 1 []"
  by (simp add: v3_to_v4_def slice_def v3_loop_acc [of c _ _ "[d]"])

lemma v4_to_v5_Cons: "v4_to_v5 c (d # tail) = d # v4_loop c (d # tail) 1 []"
  by (simp add: v4_to_v5_def slice_def v4_loop_acc [of c _ _ "[d]"])

lemma v3_to_v4_Nil: "v3_to_v4 c [] = []"
  by (simp add: v3_to_v4_def slice_def v3_loop_end)

lemma v4_to_v5_Nil: "v4_to_v5 c [] = []"
  by (simp add: v4_to_v5_def slice_def v4_loop_end)

lemmas spec_defs = spec_cps_def spec_split_def spec_upgrade_def spec_join_def spec_tags_def

subsection \<open>The 2->3 block on a URL folder\<close>

text \<open>
  C1. A revision-2 record whose directory decodes to the URL folder choice with custom
  path \<open>data/plateA\<close> and that holds the entry \<open>(img.tif, n)\<close>: line 452 adds the
  result of \<open>zip\<close> to the list unflattened, so the 2->3 block returns the cleared
  directory descriptor followed by the pair \<open>(data/plateA/img.tif, n)\<close>. The record is
  no flat sequence of strings, and the later blocks treat the pair as the filename
  field of one entry.
\<close>

theorem url_absorption_stores_pairs:
  assumes "split_string c (upgrade_setting c d) = Inr (URL_FOLDER_NAME c, ''data/plateA'')"
  shows "v2_to_v3 c [Str (upgrade_setting c d), Str ''img.tif'', Str n]
           = Inr (Some [Str (static_join_string c (URL_FOLDER_NAME c) ''''),
                        Tup ''data/plateA/img.tif'' (Str n)])
         \<and> upgrade_settings c [Str d, Str ''img.tif'', Str n] 2 False
           = Inr ([Str (static_join_string c (URL_FOLDER_NAME c) ''''),
                   Tup ''data/plateA/img.tif'' (Str n),
                   Str (IO_IMAGES c), Str (YES c), Str ''Nuclei''], 5, False)
         \<and> \<not> list_all is_str [Str (static_join_string c (URL_FOLDER_NAME c) ''''),
                                Tup ''data/plateA/img.tif'' (Str n)]"
proof -
  have rule: "v2_to_v3 c [Str (upgrade_setting c d), Str ''img.tif'', Str n]
           = Inr (Some [Str (static_join_string c (URL_FOLDER_NAME c) ''''),
                        Tup ''data/plateA/img.tif'' (Str n)])"
    using assms by (simp add: v2_to_v3_def getitem_def)
  have "upgrade_settings c [Str d, Str ''img.tif'', Str n] 2 False
           = Inr ([Str (static_join_string c (URL_FOLDER_NAME c) ''''),
                   Tup ''data/plateA/img.tif'' (Str n),
                   Str (IO_IMAGES c), Str (YES c), Str ''Nuclei''], 5, False)"
    by (simp add: frame_defs getitem_def rule v3_to_v4_Cons v4_to_v5_Cons
          v3_loop_step v3_loop_end v4_loop_step v4_loop_end slice_def)
  with rule show ?thesis by simp
qed

theorem url_absorption_stores_pairs_witness:
  "split_string spec_cps (upgrade_setting spec_cps ''URL|data/plateA'')
     = Inr (URL_FOLDER_NAME spec_cps, ''data/plateA'')
   \<and> upgrade_settings spec_cps [Str ''URL|data/plateA'', Str ''img.tif'', Str ''OrigBlue''] 2 False
     = Inr ([Str ''URL|'', Tup ''data/plateA/img.tif'' (Str ''OrigBlue''),
             Str ''Images'', Str ''Yes'', Str ''Nuclei''], 5, False)"
proof -
  have h: "split_string spec_cps (upgrade_setting spec_cps ''URL|data/plateA'')
     = Inr (URL_FOLDER_NAME spec_cps, ''data/plateA'')"
    by (simp add: spec_defs)
  show ?thesis
    using h url_absorption_stores_pairs [OF h, of "''OrigBlue''"]
    by (simp add: spec_cps_def spec_join_def)
qed

subsection \<open>The 1->2 block on an empty custom directory\<close>

text \<open>
  C8. A revision-1 record whose first field is the custom-folder tag and whose custom
  directory is the empty string: \<open>custom_directory[0]\<close> of line 424 raises IndexError,
  for every value of the parameters, so the 1->2 block is not total on records of
  its shape.
\<close>

theorem v1_to_v2_raises_on_empty_custom_directory:
  "v1_to_v2 c [Str DIR_CUSTOM_FOLDER, Str '''', Str ''img.tif'', Str ''OrigBlue'']
     = Inl IndexError
   \<and> upgrade_settings c [Str DIR_CUSTOM_FOLDER, Str '''', Str ''img.tif'', Str ''OrigBlue'']
        1 False = Inl IndexError"
  by (simp add: frame_defs v1_to_v2_def v1_dir_parts_def getitem_def startswith_def
        DIR_CUSTOM_FOLDER_def)

subsection \<open>Calls that run no rewrite block, or only the last ones\<close>

lemma standardize_dir_Cons:
  "the_list f = Str d # tail \<Longrightarrow>
   standardize_dir c f = Inr (f\<lparr>heap := (heap f)[setting_values f := Str (upgrade_setting c d) # tail]\<rparr>)"
  by (simp add: standardize_dir_def getitem_def)

lemma no_rule_returns:
  assumes "(fm \<and> vrn \<noteq> 4) \<or> (\<not> fm \<and> vrn \<noteq> 1 \<and> vrn \<noteq> 2 \<and> vrn \<noteq> 3 \<and> vrn \<noteq> 4)"
  shows "upgrade_settings c (Str d # tail) vrn fm = Inr (Str (upgrade_setting c d) # tail, vrn, fm)"
  using assms by (auto simp: frame_defs getitem_def)

lemma no_rule_empty:
  assumes "(fm \<and> vrn \<noteq> 4) \<or> (\<not> fm \<and> vrn \<noteq> 1 \<and> vrn \<noteq> 2 \<and> vrn \<noteq> 3 \<and> vrn \<noteq> 4)"
  shows "upgrade_settings c [] vrn fm = Inl IndexError"
  using assms by (auto simp: frame_defs getitem_def)

lemma native_v4_returns:
  "upgrade_settings c (Str d # tail) 4 False
     = Inr (v4_to_v5 c (Str (upgrade_setting c d) # tail), 5, False)"
  by (simp add: frame_defs getitem_def)

lemma native_v3_returns:
  "upgrade_settings c (Str d # tail) 3 False
     = Inr (v4_to_v5 c (v3_to_v4 c (Str (upgrade_setting c d) # tail)), 5, False)"
  by (simp add: frame_defs getitem_def)

lemma callers_list_written:
  assumes "\<not> (fm \<and> vrn = 4)" and "\<not> (\<not> fm \<and> (vrn = 1 \<or> vrn = 2))"
  shows "callers_list_after c (Str d # tail) vrn fm = Inr (Str (upgrade_setting c d) # tail)"
  using assms by (auto simp: frame_defs getitem_def)

subsection \<open>Revisions without a rewrite block\<close>

text \<open>
  C3, as amended. \<open>upgrade_settings\<close> has no error for an unknown revision. For every
  pair of revision and origin flag that no block tests for (a legacy record at a
  revision other than 4, a native record at a revision outside 1 to 4), a record with
  at least one field is returned with only its first field passed through
  \<open>DirectoryPath.upgrade_setting\<close>, together with the unchanged revision number and
  origin flag; the empty record raises IndexError at line 441.
\<close>

theorem no_rule_keeps_record:
  assumes "(fm \<and> vrn \<noteq> 4) \<or> (\<not> fm \<and> vrn \<noteq> 1 \<and> vrn \<noteq> 2 \<and> vrn \<noteq> 3 \<and> vrn \<noteq> 4)"
  shows "upgrade_settings c (Str d # tail) vrn fm
           = Inr (Str (upgrade_setting c d) # tail, vrn, fm)
         \<and> upgrade_settings c [] vrn fm = Inl IndexError"
  using assms no_rule_returns [of fm vrn c d tail] no_rule_empty [of fm vrn c] by blast

theorem no_rule_keeps_record_witness:
  "((True \<and> (3::int) \<noteq> 4) \<or> (\<not> True \<and> (3::int) \<noteq> 1 \<and> (3::int) \<noteq> 2 \<and> (3::int) \<noteq> 3 \<and> (3::int) \<noteq> 4))
   \<and> upgrade_settings spec_cps [Str ''Default Image Folder|.'', Str ''img.tif'', Str ''OrigBlue''] 3 True
       = Inr ([Str ''Default Input Folder|.'', Str ''img.tif'', Str ''OrigBlue''], 3, True)
   \<and> upgrade_settings spec_cps [] 3 True = Inl IndexError"
proof -
  have h: "(True \<and> (3::int) \<noteq> 4) \<or> (\<not> True \<and> (3::int) \<noteq> 1 \<and> (3::int) \<noteq> 2 \<and> (3::int) \<noteq> 3 \<and> (3::int) \<noteq> 4)"
    by simp
  show ?thesis
    using no_rule_keeps_record [OF h, of spec_cps "''Default Image Folder|.''"
        "[Str ''img.tif'', Str ''OrigBlue'']"]
    by (simp add: spec_defs)
qed

theorem unknown_revision_counterexample:
  "upgrade_settings spec_cps [Str ''Default Input Folder|.'', Str ''img.tif'', Str ''OrigBlue'']
      3 True
     = Inr ([Str ''Default Input Folder|.'', Str ''img.tif'', Str ''OrigBlue''], 3, True)
   \<and> upgrade_settings spec_cps
        [Str ''Default Input Folder|.'', Str ''img.tif'', Str ''Images'', Str ''OrigBlue'',
         Str ''Yes'', Str ''Nuclei''] 6 False
     = Inr ([Str ''Default Input Folder|.'', Str ''img.tif'', Str ''Images'', Str ''OrigBlue'',
         Str ''Yes'', Str ''Nuclei''], 6, False)"
  by (simp add: frame_defs getitem_def spec_defs)

subsection \<open>Tails that the entry width does not divide\<close>

text \<open>
  C2, as amended. No block checks the length of the tail. For every native record at
  revision 3, 4 or 5 whose first field is a string, whatever the length of its tail,
  \<open>upgrade_settings\<close> returns a revision-5 record (at revision 5 the record itself with its
  directory field standardised), and \<open>prepare_settings\<close> takes the floor of
  \<open>(len - 1) / 5\<close> as the number of entries.
\<close>

theorem misaligned_tail_not_rejected:
  assumes "vrn = 3 \<or> vrn = 4 \<or> vrn = 5"
  shows "(\<exists>ys. upgrade_settings c (Str d # tail) vrn False = Inr (ys, 5, False))
         \<and> upgrade_settings c (Str d # tail) 5 False
             = Inr (Str (upgrade_setting c d) # tail, 5, False)
         \<and> prepare_settings_count (Str d # tail) = int (length tail) div 5"
proof -
  have "upgrade_settings c (Str d # tail) 5 False
          = Inr (Str (upgrade_setting c d) # tail, 5, False)"
    by (rule no_rule_returns) simp
  moreover have "prepare_settings_count (Str d # tail) = int (length tail) div 5"
    by (simp add: prepare_settings_count_def S_FILE_SETTINGS_COUNT_V5_def)
  moreover have "\<exists>ys. upgrade_settings c (Str d # tail) vrn False = Inr (ys, 5, False)"
    using assms native_v3_returns [of c d tail] native_v4_returns [of c d tail]
      no_rule_returns [of False 5 c d tail]
    by auto
  ultimately show ?thesis by simp
qed

theorem misaligned_tail_not_rejected_witness:
  "((5::int) = 3 \<or> (5::int) = 4 \<or> (5::int) = 5)
   \<and> length [Str ''a'', Str ''Images'', Str ''A'', Str ''Yes'', Str ''Nuclei'', Str ''b'', Str ''Images'']
       mod S_FILE_SETTINGS_COUNT_V5 \<noteq> 0
   \<and> (\<exists>ys. upgrade_settings spec_cps
        [Str ''Default Input Folder|.'', Str ''a'', Str ''Images'', Str ''A'', Str ''Yes'',
         Str ''Nuclei'', Str ''b'', Str ''Images''] 5 False = Inr (ys, 5, False))
   \<and> prepare_settings_count
        [Str ''Default Input Folder|.'', Str ''a'', Str ''Images'', Str ''A'', Str ''Yes'',
         Str ''Nuclei'', Str ''b'', Str ''Images''] = 1"
proof -
  have h: "(5::int) = 3 \<or> (5::int) = 4 \<or> (5::int) = 5" by simp
  show ?thesis
    using misaligned_tail_not_rejected [OF h, of spec_cps "''Default Input Folder|.''"
        "[Str ''a'', Str ''Images'', Str ''A'', Str ''Yes'', Str ''Nuclei'', Str ''b'',
          Str ''Images'']"]
    by (simp add: S_FILE_SETTINGS_COUNT_V5_def)
qed

theorem misaligned_record_counterexample:
  "length [Str ''a'', Str ''Images'', Str ''A'', Str ''Yes'', Str ''Nuclei'', Str ''b'', Str ''Images'']
     = 7
   \<and> 7 mod S_FILE_SETTINGS_COUNT_V5 \<noteq> 0
   \<and> upgrade_settings spec_cps
        [Str ''Default Input Folder|.'', Str ''a'', Str ''Images'', Str ''A'', Str ''Yes'',
         Str ''Nuclei'', Str ''b'', Str ''Images''] 5 False
      = Inr ([Str ''Default Input Folder|.'', Str ''a'', Str ''Images'', Str ''A'', Str ''Yes'',
         Str ''Nuclei'', Str ''b'', Str ''Images''], 5, False)"
  by (simp add: frame_defs getitem_def spec_defs S_FILE_SETTINGS_COUNT_V5_def)

subsection \<open>The caller's list\<close>

text \<open>
  C4. Line 441 assigns into the list that \<open>setting_values\<close> is bound to. Unless the legacy
  block or the 1->2 block has rebound the variable to a new list, that is the caller's own
  list: after the call its first field holds the result of
  \<open>DirectoryPath.upgrade_setting\<close>. The input record is mutated whenever that result
  differs from the field.
\<close>

theorem upgrade_settings_writes_callers_list:
  assumes "\<not> (fm \<and> vrn = 4)" and "\<not> (\<not> fm \<and> (vrn = 1 \<or> vrn = 2))"
  shows "callers_list_after c (Str d # tail) vrn fm
           = Inr ((Str d # tail)[0 := Str (upgrade_setting c d)])"
  using callers_list_written [OF assms] by simp

theorem upgrade_settings_writes_callers_list_witness:
  "\<not> (False \<and> (3::int) = 4) \<and> \<not> (\<not> False \<and> ((3::int) = 1 \<or> (3::int) = 2))
   \<and> callers_list_after spec_cps
        [Str ''Default Image Folder|x'', Str ''img.tif'', Str ''OrigBlue''] 3 False
      = Inr [Str ''Default Input Folder|x'', Str ''img.tif'', Str ''OrigBlue'']
   \<and> [Str ''Default Input Folder|x'', Str ''img.tif'', Str ''OrigBlue'']
      \<noteq> [Str ''Default Image Folder|x'', Str ''img.tif'', Str ''OrigBlue'']"
proof -
  have h1: "\<not> (False \<and> (3::int) = 4)" by simp
  have h2: "\<not> (\<not> False \<and> ((3::int) = 1 \<or> (3::int) = 2))" by simp
  show ?thesis
    using upgrade_settings_writes_callers_list [OF h1 h2, of spec_cps
        "''Default Image Folder|x''" "[Str ''img.tif'', Str ''OrigBlue'']"]
    by (simp add: spec_defs)
qed

subsection \<open>The loops on complete entries\<close>

lemma v4_loop_entries:
  "v4_loop c (pre @ entries_v4 es) (length pre) []
     = entries_v5 (map (add_object_option c) es)"
proof (induction es arbitrary: pre)
  case Nil
  show ?case by (simp add: entries_v4_def entries_v5_def v4_loop_end)
next
  case (Cons e es)
  obtain f n r where e: "e = (f, n, r)" by (cases e)
  let ?sv = "pre @ entries_v4 (e # es)"
  have sv: "?sv = (pre @ [Str f, Str n, Str r]) @ entries_v4 es"
    by (simp add: e entries_v4_def)
  have lt: "length pre < length ?sv" by (simp add: e entries_v4_def)
  have hd: "?sv ! length pre = Str f" by (simp add: e entries_v4_def)
  have sl: "slice ?sv (length pre + 1) (length pre + 3) = [Str n, Str r]"
    by (simp add: e entries_v4_def slice_def)
  have "v4_loop c ?sv (length pre + 3) []
          = entries_v5 (map (add_object_option c) es)"
    using Cons.IH [of "pre @ [Str f, Str n, Str r]"] by (simp add: sv eval_nat_numeral)
  then show ?case
    using v4_loop_step [OF lt, of c] hd sl
    by (simp add: e entries_v5_def add_object_option_def)
qed


lemma v4_to_v5_entries:
  "v4_to_v5 c (d # entries_v4 es) = d # entries_v5 (map (add_object_option c) es)"
  using v4_loop_entries [of c "[d]" es] by (simp add: v4_to_v5_Cons)


subsection \<open>The 4->5 block\<close>

text \<open>
  C9. For every native revision-4 record made of the directory field and complete
  width-3 entries, the 4->5 block turns each entry \<open>(filename, image name, rescale)\<close> into
  \<open>(filename, IO_IMAGES, image name, rescale, "Nuclei")\<close>: the choice field comes right
  after the filename, with the image variant as its value, and the object name
  \<open>Nuclei\<close> comes last. The entry \<open>(img.tif, OrigBlue, yes)\<close> becomes
  \<open>(img.tif, IO_IMAGES, OrigBlue, yes, Nuclei)\<close>.
\<close>

theorem v4_to_v5_field_order:
  "upgrade_settings c (Str d # entries_v4 es) 4 False
     = Inr (Str (upgrade_setting c d) # entries_v5 (map (add_object_option c) es), 5, False)
   \<and> add_object_option c (''img.tif'', ''OrigBlue'', ''yes'')
     = (''img.tif'', IO_IMAGES c, ''OrigBlue'', ''yes'', ''Nuclei'')"
  by (simp add: native_v4_returns v4_to_v5_entries add_object_option_def)

theorem v4_to_v5_field_order_witness:
  "upgrade_settings spec_cps
     [Str ''Default Input Folder|.'', Str ''img.tif'', Str ''OrigBlue'', Str ''yes''] 4 False
   = Inr ([Str ''Default Input Folder|.'', Str ''img.tif'', Str ''Images'', Str ''OrigBlue'',
           Str ''yes'', Str ''Nuclei''], 5, False)"
  using v4_to_v5_field_order [of spec_cps "''Default Input Folder|.''"
      "[(''img.tif'', ''OrigBlue'', ''yes'')]"]
  by (simp add: entries_v4_def entries_v5_def add_object_option_def spec_defs)

subsection \<open>The legacy block on a record of ten or more fields\<close>





subsection \<open>The legacy block: the folder choice\<close>

text \<open>
  C7, as amended. For every legacy record with at least two fields, lines 397-405 write
  the explicit folder tag over the first field, which Matlab left blank: before any
  deletion of unused entries the result has the length of the input, its first field is
  the tag, and every other field keeps its position. No field is inserted and none is
  shifted.
\<close>

theorem legacy_tag_overwrites_first_field:
  assumes "2 \<le> length xs"
  shows "\<exists>ys. set_dir_choice c xs = Inr ys
           \<and> length ys = length xs
           \<and> ys ! 0 = Str (matlab_dir_choice c (xs ! 1))
           \<and> (\<forall>i. 0 < i \<and> i < length xs \<longrightarrow> ys ! i = xs ! i)"
proof -
  have "0 < length xs" and "1 < length xs" using assms by auto
  then show ?thesis by (simp add: set_dir_choice_def getitem_def)
qed

theorem legacy_tag_overwrites_first_field_witness:
  "2 \<le> length [Str '''', Str ''.'', Str ''a.tif'', Str ''A'']
   \<and> (\<exists>ys. set_dir_choice spec_cps [Str '''', Str ''.'', Str ''a.tif'', Str ''A''] = Inr ys
         \<and> length ys = length [Str '''', Str ''.'', Str ''a.tif'', Str ''A'']
         \<and> ys ! 0 = Str (matlab_dir_choice spec_cps
                           ([Str '''', Str ''.'', Str ''a.tif'', Str ''A''] ! 1))
         \<and> (\<forall>i. 0 < i \<and> i < length [Str '''', Str ''.'', Str ''a.tif'', Str ''A'']
                \<longrightarrow> ys ! i = [Str '''', Str ''.'', Str ''a.tif'', Str ''A''] ! i))
   \<and> matlab_dir_choice spec_cps ([Str '''', Str ''.'', Str ''a.tif'', Str ''A''] ! 1)
       = ''Default Input Folder''"
proof -
  have h: "2 \<le> length [Str '''', Str ''.'', Str ''a.tif'', Str ''A'']" by simp
  have e: "matlab_dir_choice spec_cps ([Str '''', Str ''.'', Str ''a.tif'', Str ''A''] ! 1)
       = ''Default Input Folder''"
    by (simp add: matlab_dir_choice_def spec_cps_def)
  show ?thesis
    using h e legacy_tag_overwrites_first_field [OF h, of spec_cps] by blast
qed

theorem legacy_tag_inserted_counterexample:
  "set_dir_choice spec_cps
     [Str '''', Str ''.'', Str ''a.tif'', Str ''A'', Str ''b.tif'', Str ''B'',
      Str ''c.tif'', Str ''C'', Str ''d.tif'', Str ''D'']
   = Inr [Str ''Default Input Folder'', Str ''.'', Str ''a.tif'', Str ''A'', Str ''b.tif'',
          Str ''B'', Str ''c.tif'', Str ''C'', Str ''d.tif'', Str ''D'']
   \<and> length [Str ''Default Input Folder'', Str ''.'', Str ''a.tif'', Str ''A'', Str ''b.tif'',
          Str ''B'', Str ''c.tif'', Str ''C'', Str ''d.tif'', Str ''D'']
     \<noteq> length [Str '''', Str ''.'', Str ''a.tif'', Str ''A'', Str ''b.tif'', Str ''B'',
      Str ''c.tif'', Str ''C'', Str ''d.tif'', Str ''D''] + 1
   \<and> [Str ''Default Input Folder'', Str ''.'', Str ''a.tif'', Str ''A'', Str ''b.tif'',
          Str ''B'', Str ''c.tif'', Str ''C'', Str ''d.tif'', Str ''D''] ! 1
     \<noteq> [Str '''', Str ''.'', Str ''a.tif'', Str ''A'', Str ''b.tif'', Str ''B'',
      Str ''c.tif'', Str ''C'', Str ''d.tif'', Str ''D''] ! 0"
  by (simp add: set_dir_choice_def getitem_def matlab_dir_choice_def spec_cps_def)

subsection \<open>Native records whose folder is no URL\<close>
























lemma spec_cps_fields:
  "DEFAULT_INPUT_FOLDER_NAME spec_cps = ''Default Input Folder''"
  "DEFAULT_OUTPUT_FOLDER_NAME spec_cps = ''Default Output Folder''"
  "DEFAULT_INPUT_SUBFOLDER_NAME spec_cps = ''Default Input Folder sub-folder''"
  "DEFAULT_OUTPUT_SUBFOLDER_NAME spec_cps = ''Default Output Folder sub-folder''"
  "ABSOLUTE_FOLDER_NAME spec_cps = ''Elsewhere...''"
  "URL_FOLDER_NAME spec_cps = ''URL''"
  "DO_NOT_USE spec_cps = ''Do not use''"
  "YES spec_cps = ''Yes''"
  "IO_IMAGES spec_cps = ''Images''"
  "static_join_string spec_cps = spec_join"
  "split_string spec_cps = spec_split"
  "upgrade_setting spec_cps = spec_upgrade"
  by (simp_all add: spec_cps_def)

subsection \<open>The number of file entries\<close>




subsection \<open>The legacy folder choice through the whole call\<close>




subsection \<open>The directory field of every returned record\<close>

lemma block_matlab_address:
  assumes "block_matlab c f = Inr f1" and "setting_values f < length (heap f)"
  shows "setting_values f1 < length (heap f1)"
  using assms by (auto simp: block_matlab_def rebind_def split: if_splits sum.splits)

lemma block_v1_address:
  assumes "block_v1 c f = Inr f1" and "setting_values f < length (heap f)"
  shows "setting_values f1 < length (heap f1)"
  using assms by (auto simp: block_v1_def rebind_def split: if_splits sum.splits)

lemma standardize_dir_head:
  assumes "standardize_dir c f = Inr f3" and "setting_values f < length (heap f)"
  shows "\<exists>s rest. the_list f3 = Str (upgrade_setting c s) # rest"
proof -
  from assms(1) obtain s where s: "getitem (the_list f) 0 = Inr (Str s)"
    and f3: "f3 = f\<lparr>heap := (heap f)[setting_values f :=
                   (the_list f)[0 := Str (upgrade_setting c s)]]\<rparr>"
    by (auto simp: standardize_dir_def split: sum.splits elim: str_method.elims)
  from s obtain rest where "the_list f = Str s # rest"
    by (cases "the_list f") (auto simp: getitem_def)
  then have "the_list f3 = Str (upgrade_setting c s) # rest"
    using assms(2) by (simp add: f3 the_list_def)
  then show ?thesis by blast
qed

lemma block_v2_head:
  assumes "block_v2 c f3 = Inr f4" and "the_list f3 = Str (upgrade_setting c s) # rest"
  shows "\<exists>s' rest'. the_list f4 = Str s' # rest'
           \<and> (s' = upgrade_setting c s
               \<or> s' = static_join_string c (URL_FOLDER_NAME c) '''')"
  using assms
  by (auto simp: block_v2_def v2_to_v3_def getitem_def the_list_def rebind_def
           split: if_splits sum.splits option.splits prod.splits)

lemma block_v3_head:
  assumes "the_list f = x # rest"
  shows "\<exists>rest'. the_list (block_v3 c f) = x # rest'"
  using assms by (auto simp: block_v3_def rebind_def the_list_def v3_to_v4_Cons)

lemma block_v4_head:
  assumes "the_list f = x # rest"
  shows "\<exists>rest'. the_list (block_v4 c f) = x # rest'"
  using assms by (auto simp: block_v4_def rebind_def the_list_def v4_to_v5_Cons)

lemma upgrade_settings_head:
  assumes "upgrade_settings c xs vrn fm = Inr (ys, vrn', fm')"
  shows "\<exists>s rest. ys = Str s # rest
           \<and> ((\<exists>s'. s = upgrade_setting c s')
               \<or> s = static_join_string c (URL_FOLDER_NAME c) '''')"
proof -
  from assms obtain f1 f2 f3 f4 where
      b0: "block_matlab c (enter xs vrn fm) = Inr f1"
    and b1: "block_v1 c f1 = Inr f2"
    and st: "standardize_dir c f2 = Inr f3"
    and b2: "block_v2 c f3 = Inr f4"
    and ys: "ys = the_list (block_v4 c (block_v3 c f4))"
    by (auto simp: upgrade_settings_def upgrade_settings_frame_def split: sum.splits)
  have "setting_values (enter xs vrn fm) < length (heap (enter xs vrn fm))"
    by (simp add: enter_def)
  from block_v1_address [OF b1 block_matlab_address [OF b0 this]]
  have "setting_values f2 < length (heap f2)" .
  from standardize_dir_head [OF st this]
  obtain s rest where "the_list f3 = Str (upgrade_setting c s) # rest" by blast
  from block_v2_head [OF b2 this]
  obtain s' rest' where l4: "the_list f4 = Str s' # rest'"
    and good: "s' = upgrade_setting c s \<or> s' = static_join_string c (URL_FOLDER_NAME c) ''''"
    by blast
  from block_v3_head [OF l4]
  obtain r3 where "the_list (block_v3 c f4) = Str s' # r3" by blast
  from block_v4_head [OF this]
  obtain r4 where "the_list (block_v4 c (block_v3 c f4)) = Str s' # r4" by blast
  with ys good show ?thesis by blast
qed

lemma spec_upgrade_idem: "spec_upgrade (spec_upgrade s) = spec_upgrade s"
proof (cases "dropWhile (\<lambda>ch. ch \<noteq> CHR ''|'') s")
  case Nil
  have "spec_upgrade s = s" by (simp only: spec_upgrade_def Nil list.case)
  then show ?thesis by simp
next
  case (Cons bar custom_path)
  show ?thesis
  proof (cases "takeWhile (\<lambda>ch. ch \<noteq> CHR ''|'') s = ''Default Image Folder''")
    case True
    have "spec_upgrade s = ''Default Input Folder|'' @ custom_path"
      by (simp only: spec_upgrade_def Cons list.case True if_True spec_join_def) simp
    then show ?thesis by (simp add: spec_upgrade_def)
  next
    case False
    have "spec_upgrade s = s"
      by (simp only: spec_upgrade_def Cons list.case False if_False)
    then show ?thesis by simp
  qed
qed

subsection \<open>Migrating a migrated record again\<close>

text \<open>
  C5. At revision 5 with the origin flag off, the call runs line 441 only, so a second
  migration applies \<open>DirectoryPath.upgrade_setting\<close> once more to the directory field and
  changes nothing else. That field is a result of \<open>upgrade_setting\<close>, or the cleared URL
  descriptor of line 449. \<open>upgrade_setting\<close> is a parameter: where it leaves its own results
  and the cleared URL descriptor as they are, for every record, revision and origin
  flag, migrating the result of a migration again from revision 5 returns it unchanged,
  and a failed migration stays the same failure.
\<close>

theorem migrate_idempotent_at_current_revision:
  assumes "\<forall>s. upgrade_setting c (upgrade_setting c s) = upgrade_setting c s"
    and "upgrade_setting c (static_join_string c (URL_FOLDER_NAME c) '''')
           = static_join_string c (URL_FOLDER_NAME c) ''''"
  shows "(case migrate c r v legacy of Inl e \<Rightarrow> Inl e | Inr ys \<Rightarrow> migrate c ys 5 False)
           = migrate c r v legacy"
proof (cases "upgrade_settings c r v legacy")
  case (Inl e)
  then show ?thesis by (simp add: migrate_def)
next
  case (Inr res)
  obtain ys v' l' where res: "res = (ys, v', l')" by (cases res)
  from upgrade_settings_head [OF Inr [unfolded res]]
  obtain s rest where ys: "ys = Str s # rest"
    and good: "(\<exists>s'. s = upgrade_setting c s')
               \<or> s = static_join_string c (URL_FOLDER_NAME c) ''''"
    by blast
  from good assms have fixed: "upgrade_setting c s = s" by auto
  have "upgrade_settings c ys 5 False = Inr (ys, 5, False)"
    unfolding ys using no_rule_returns [of False 5 c s rest] by (simp add: fixed)
  then show ?thesis by (simp add: migrate_def Inr res)
qed

theorem migrate_idempotent_at_current_revision_witness:
  "(\<forall>s. upgrade_setting spec_cps (upgrade_setting spec_cps s) = upgrade_setting spec_cps s)
   \<and> upgrade_setting spec_cps (static_join_string spec_cps (URL_FOLDER_NAME spec_cps) '''')
       = static_join_string spec_cps (URL_FOLDER_NAME spec_cps) ''''
   \<and> migrate spec_cps
        [Str ''Default Image Folder|.'', Str ''img.tif'', Str ''OrigBlue''] 3 False
       = Inr [Str ''Default Input Folder|.'', Str ''img.tif'', Str ''Images'',
              Str ''OrigBlue'', Str ''Yes'', Str ''Nuclei'']
   \<and> migrate spec_cps
        [Str ''Default Input Folder|.'', Str ''img.tif'', Str ''Images'',
         Str ''OrigBlue'', Str ''Yes'', Str ''Nuclei''] 5 False
       = Inr [Str ''Default Input Folder|.'', Str ''img.tif'', Str ''Images'',
              Str ''OrigBlue'', Str ''Yes'', Str ''Nuclei'']"
proof -
  have h1: "\<forall>s. upgrade_setting spec_cps (upgrade_setting spec_cps s)
              = upgrade_setting spec_cps s"
    by (simp add: spec_cps_fields spec_upgrade_idem)
  have h2: "upgrade_setting spec_cps (static_join_string spec_cps (URL_FOLDER_NAME spec_cps) '''')
       = static_join_string spec_cps (URL_FOLDER_NAME spec_cps) ''''"
    by (simp add: spec_cps_fields spec_upgrade_def spec_join_def)
  have first: "migrate spec_cps
        [Str ''Default Image Folder|.'', Str ''img.tif'', Str ''OrigBlue''] 3 False
       = Inr [Str ''Default Input Folder|.'', Str ''img.tif'', Str ''Images'',
              Str ''OrigBlue'', Str ''Yes'', Str ''Nuclei'']"
    by (simp add: migrate_def native_v3_returns v3_to_v4_Cons v4_to_v5_Cons v3_loop_step
          v3_loop_end v4_loop_step v4_loop_end slice_def spec_cps_fields spec_upgrade_def
          spec_join_def)
  show ?thesis
    using h1 h2 first
      migrate_idempotent_at_current_revision [OF h1 h2,
        of "[Str ''Default Image Folder|.'', Str ''img.tif'', Str ''OrigBlue'']" 3 False]
    by simp
qed

end
